theory Spec2Isabelle
  imports Main
begin

section \<open>Values thrown, sent and injected\<close>

text \<open>
  The JavaScript values the dispatch engine handles without looking inside them: what a
  \<^verbatim>\<open>catch\<close> receives, what \<^verbatim>\<open>res.send\<close> is given, and what a provider injects.
  \<open>Obj m i\<close> is the object with identity \<open>i\<close> whose \<^verbatim>\<open>message\<close> property is \<open>m\<close>
  (\<open>None\<close> when the property is absent or nullish); an \<^verbatim>\<open>Error\<close> is such an object.
  \<open>HttpServer n\<close> is the handle of the \<open>n\<close>-th transport created.
\<close>

type_synonym addr = nat

datatype js_value = Undefined | Null | Str string | Obj "string option" nat | HttpServer nat

fun message :: "js_value \<Rightarrow> string option" where
  "message (Obj m i) = m"
| "message v = None"

definition nullish :: "js_value \<Rightarrow> bool" where
  "nullish v = (v = Undefined \<or> v = Null)"

section \<open>The response object\<close>

text \<open>
  What the engine reads and writes of \<^verbatim>\<open>express.Response\<close>: the status code, whether the
  headers have gone out, and what the client has received (status and body), which is
  fixed by the first \<^verbatim>\<open>send\<close>. \<^verbatim>\<open>res.status(c)\<close> stores the code and returns the response.
  \<^verbatim>\<open>res.send(b)\<close> finalises the response; on a response whose headers have been sent it
  raises (Node's \<^verbatim>\<open>ERR_HTTP_HEADERS_SENT\<close>) and the client keeps what it already has.
\<close>

record response =
  statusCode :: nat
  headersSent :: bool
  delivered :: "(nat \<times> js_value) option"

definition new_response :: response where
  "new_response = \<lparr>statusCode = 200, headersSent = False, delivered = None\<rparr>"

definition headers_sent_error :: js_value where
  "headers_sent_error = Obj (Some ''Cannot set headers after they are sent to the client'') 0"

definition status :: "nat \<Rightarrow> response \<Rightarrow> response" where
  "status c r = r\<lparr>statusCode := c\<rparr>"

definition send :: "js_value \<Rightarrow> response \<Rightarrow> js_value + response" where
  "send b r =
     (if headersSent r then Inl headers_sent_error
      else Inr (r\<lparr>headersSent := True, delivered := Some (statusCode r, b)\<rparr>))"

text \<open>
  A call that user code makes on the response. When user code sends on a finalised
  response the call raises inside that code and the response is left as it was; what the
  code does about the exception is part of its own description below.
\<close>

datatype res_op = Status nat | Send js_value

fun exec_op :: "res_op \<Rightarrow> response \<Rightarrow> response" where
  "exec_op (Status c) r = status c r"
| "exec_op (Send b) r = (case send b r of Inl e \<Rightarrow> r | Inr r' \<Rightarrow> r')"

definition exec_ops :: "res_op list \<Rightarrow> response \<Rightarrow> response" where
  "exec_ops ops r = fold exec_op ops r"

section \<open>Handler capabilities\<close>

text \<open>
  \<^verbatim>\<open>interface Handler { handle(req, res): void | Promise<void> }\<close>.
  One call of \<^verbatim>\<open>handle\<close>, as the dispatch wrapper observes it: how the call completes, the
  calls made on the response until then, and the calls made on the response by work the
  handler left queued, which runs while the wrapper yields for one scheduler tick.
\<close>

datatype completion =
    Returns             \<comment> \<open>returned something that is not a \<^verbatim>\<open>Promise\<close>\<close>
  | Throws js_value     \<comment> \<open>threw synchronously\<close>
  | Fulfils             \<comment> \<open>returned a promise that was fulfilled\<close>
  | Rejects js_value    \<comment> \<open>returned a promise that was rejected\<close>
  | Never               \<comment> \<open>returned a promise that never settles\<close>

record handling =
  settled :: completion
  until_settled :: "res_op list"
  during_tick :: "res_op list"

text \<open>
  A raw Express callback \<^verbatim>\<open>(req, res, next)\<close>: what it does during the call, the value it
  throws at the end of the call (if any), what its continuations do in later turns, up
  to the end of the scheduler tick that follows the settling of the adapter's promise,
  and the error it raises asynchronously (its own returned promise rejecting, or a later
  continuation throwing), if any.
\<close>

datatype cb_action = OnRes res_op | Signal

record callback =
  cb_sync :: "cb_action list"
  cb_throws :: "js_value option"
  cb_later :: "cb_action list"
  cb_async_error :: "js_value option"

text \<open>A promise settles once: later calls of \<^verbatim>\<open>resolve\<close> and \<^verbatim>\<open>reject\<close> do nothing.\<close>

datatype promise = Pending | Fulfilled | Rejected js_value

fun resolve_promise :: "promise \<Rightarrow> promise" where
  "resolve_promise Pending = Fulfilled"
| "resolve_promise p = p"

fun reject_promise :: "js_value \<Rightarrow> promise \<Rightarrow> promise" where
  "reject_promise e Pending = Rejected e"
| "reject_promise e p = p"

text \<open>
  Running the callback's actions with \<^verbatim>\<open>resolve\<close> as its third argument. The state is the
  promise, the response calls made while it was pending and those made after it settled.
\<close>

type_synonym adapter_state = "promise \<times> res_op list \<times> res_op list"

fun cb_step :: "cb_action \<Rightarrow> adapter_state \<Rightarrow> adapter_state" where
  "cb_step Signal (p, early, late) = (resolve_promise p, early, late)"
| "cb_step (OnRes op) (p, early, late) =
     (if p = Pending then (p, early @ [op], late) else (p, early, late @ [op]))"

definition cb_run :: "cb_action list \<Rightarrow> adapter_state \<Rightarrow> adapter_state" where
  "cb_run acts s = fold cb_step acts s"

text \<open>
  \<^verbatim>\<open>new Promise((resolve, reject) => { express_handler(req, res, resolve); })\<close>:
  the executor runs the callback synchronously; an exception leaving the executor rejects
  the promise (if it is still pending). \<^verbatim>\<open>reject\<close> is never passed on, and the value the
  callback returns is dropped, so \<open>cb_async_error\<close> is not read.
\<close>

definition executor :: "callback \<Rightarrow> adapter_state" where
  "executor f =
     (case cb_run (cb_sync f) (Pending, [], []) of (p, early, late) \<Rightarrow>
        (case cb_throws f of
           None \<Rightarrow> (p, early, late)
         | Some e \<Rightarrow> (reject_promise e p, early, late)))"

definition adapter_run :: "callback \<Rightarrow> adapter_state" where
  "adapter_run f = cb_run (cb_later f) (executor f)"

definition adapter_promise :: "callback \<Rightarrow> promise" where
  "adapter_promise f = fst (adapter_run f)"

fun completion_of :: "promise \<Rightarrow> completion" where
  "completion_of Pending = Never"
| "completion_of Fulfilled = Fulfils"
| "completion_of (Rejected e) = Rejects e"

text \<open>
  A handler instance is an object of a user's class, described by what its \<^verbatim>\<open>handle\<close>
  does, or an object of the class that \<^verbatim>\<open>Handler.from\<close> returns.
\<close>

datatype handler = Custom handling | Adapter callback

fun handle :: "handler \<Rightarrow> handling" where
  "handle (Custom g) = g"
| "handle (Adapter f) =
     (case adapter_run f of (p, early, late) \<Rightarrow>
        \<lparr>settled = completion_of p, until_settled = early, during_tick = late\<rparr>)"

datatype resolved_instance = HandlerInstance handler | ServerInstance addr

section \<open>The injection scope\<close>

text \<open>
  Modelled from the spec: the injection container (tsyringe's \<^verbatim>\<open>DependencyContainer\<close>) is an
  external collaborator. The spec describes it as a mapping from a token to a value that
  supports creating a child scope which inherits the parent's registrations and can be
  overridden independently. Containers are objects in a store, addressed by their index;
  a later registration of a token overrides an earlier one; a lookup that misses goes to
  the parent. A class is resolved by looking up the tokens of its constructor parameters
  and running the constructor, which may throw.
\<close>

datatype token = Symbol string | Class string

record container_obj =
  registry :: "(token \<times> js_value) list"
  parent :: "addr option"

fun lookup :: "nat \<Rightarrow> container_obj list \<Rightarrow> addr \<Rightarrow> token \<Rightarrow> js_value option" where
  "lookup 0 cs a t = None"
| "lookup (Suc n) cs a t =
     (if a < length cs then
        (case map_of (registry (cs ! a)) t of
           Some v \<Rightarrow> Some v
         | None \<Rightarrow> (case parent (cs ! a) of None \<Rightarrow> None | Some p \<Rightarrow> lookup n cs p t))
      else None)"

definition resolve_token :: "container_obj list \<Rightarrow> addr \<Rightarrow> token \<Rightarrow> js_value option" where
  "resolve_token cs a t = lookup (length cs) cs a t"

definition register :: "addr \<Rightarrow> token \<Rightarrow> js_value \<Rightarrow> container_obj list \<Rightarrow> container_obj list" where
  "register a t v cs =
     (if a < length cs then cs[a := (cs ! a)\<lparr>registry := (t, v) # registry (cs ! a)\<rparr>] else cs)"

definition createChildContainer :: "addr \<Rightarrow> container_obj list \<Rightarrow> addr \<times> container_obj list" where
  "createChildContainer a cs = (length cs, cs @ [\<lparr>registry = [], parent = Some a\<rparr>])"

text \<open>
  \<^verbatim>\<open>Newable<Handler | Server>\<close>: a class, with the text it converts to in a template
  string, the injection tokens of its constructor parameters and its constructor.
\<close>

record klass =
  class_text :: string
  params :: "token list"
  construct :: "js_value list \<Rightarrow> js_value + resolved_instance"

definition unregistered :: "token \<Rightarrow> js_value" where
  "unregistered t =
     Obj (Some (''Attempted to resolve unregistered dependency token: '' @
                (case t of Symbol s \<Rightarrow> s | Class s \<Rightarrow> s))) 1"

fun resolve_params :: "container_obj list \<Rightarrow> addr \<Rightarrow> token list \<Rightarrow> js_value + js_value list" where
  "resolve_params cs a [] = Inr []"
| "resolve_params cs a (t # ts) =
     (case resolve_token cs a t of
        None \<Rightarrow> Inl (unregistered t)
      | Some v \<Rightarrow> (case resolve_params cs a ts of Inl e \<Rightarrow> Inl e | Inr vs \<Rightarrow> Inr (v # vs)))"

definition resolve :: "container_obj list \<Rightarrow> addr \<Rightarrow> klass \<Rightarrow> js_value + resolved_instance" where
  "resolve cs a h =
     (case resolve_params cs a (params h) of Inl e \<Rightarrow> Inl e | Inr vs \<Rightarrow> construct h vs)"

section \<open>Handler.from\<close>

text \<open>
  \<^verbatim>\<open>Handler.from(express_handler)\<close> returns a class without constructor parameters, whose
  instances are adapters of the callback.
\<close>

definition from_callback :: "callback \<Rightarrow> klass" where
  "from_callback f =
     \<lparr>class_text = ''class { handle(req, res) { ... } }'', params = [],
      construct = (\<lambda>vs. Inr (HandlerInstance (Adapter f)))\<rparr>"

section \<open>Path parameters\<close>

text \<open>
  \<^verbatim>\<open>type PathParamsStr = string | RegExp | Array<string | RegExp>\<close> and
  \<^verbatim>\<open>type PathParams = PathParamsStr | { path: PathParamsStr; eager?: boolean }\<close>.
\<close>

datatype path_atom = AString string | ARegExp string

datatype path_params_str = PString string | PRegExp string | PArray "path_atom list"

datatype path_params = Bare path_params_str | Config path_params_str "bool option"

text \<open>
  The first argument \<^verbatim>\<open>attach\<close> gives the route table:
  \<^verbatim>\<open>(typeof path === 'string') ? path : (typeof path === 'object' && 'path' in path) ? path.path : null\<close>.
  A \<^verbatim>\<open>RegExp\<close> and an array are objects without a \<^verbatim>\<open>path\<close> key. \<open>None\<close> is \<^verbatim>\<open>null\<close>.
\<close>

fun route_path :: "path_params \<Rightarrow> path_params_str option" where
  "route_path (Bare (PString s)) = Some (PString s)"
| "route_path (Config p e) = Some p"
| "route_path (Bare p) = None"

text \<open>\<^verbatim>\<open>typeof path === 'object' && 'eager' in path && path.eager\<close>\<close>

fun is_eager :: "path_params \<Rightarrow> bool" where
  "is_eager (Config p (Some b)) = b"
| "is_eager path = False"

section \<open>Servers and the world they live in\<close>

datatype http_method = GET | POST | USE

text \<open>
  The closure \<^verbatim>\<open>wrapHandler\<close> returns: the server it was made by (\<^verbatim>\<open>this\<close>), the class
  \<^verbatim>\<open>h\<close>, and the variable \<^verbatim>\<open>instance\<close> it closes over (\<open>None\<close> is \<^verbatim>\<open>null\<close>).
\<close>

record wrapper =
  w_this :: addr
  w_class :: klass
  w_instance :: "resolved_instance option"

type_synonym route = "http_method \<times> path_params_str option \<times> wrapper list"

record server_obj =
  container :: addr
  express_server :: "route list"

text \<open>
  Modelled from the spec: the transport (\<^verbatim>\<open>http.Server\<close>) is an external collaborator.
  Its answer to \<^verbatim>\<open>listen(port, callback)\<close> is the environment's: either it refuses the port
  and throws at once, or it returns, and binding the port succeeds or fails, which the
  program cannot read. In the second case the transport tells the program in a later
  turn, once: it runs its \<^verbatim>\<open>listening\<close> callback when it is accepting connections, or its
  \<^verbatim>\<open>error\<close> listeners with the bind error. It holds the promise its \<^verbatim>\<open>listening\<close> callback
  resolves and the promises its \<^verbatim>\<open>error\<close> listeners reject.

  A port is a number or a string. A number is always refused unless it is an integer from
  0 to 65535 (Node's \<^verbatim>\<open>ERR_SOCKET_BAD_PORT\<close>); \<open>PortNonInteger\<close> stands for the numbers
  that are not integers. Whether a string is read as a port number or as the name of a
  pipe, and whether it is then accepted, is left to the answer.
\<close>

datatype bind_outcome = Bound | BindError js_value

datatype start = Refused js_value | Started bind_outcome

datatype port = PortNumber int | PortNonInteger | PortString string

definition bad_port_error :: js_value where
  "bad_port_error = Obj (Some ''options.port should be >= 0 and < 65536'') 2"

definition transport_answer :: "port \<Rightarrow> start \<Rightarrow> start" where
  "transport_answer port a =
     (case port of
        PortNumber n \<Rightarrow> if 0 \<le> n \<and> n \<le> 65535 then a else Refused bad_port_error
      | PortNonInteger \<Rightarrow> Refused bad_port_error
      | PortString s \<Rightarrow> a)"

record transport =
  t_port :: port
  t_outcome :: bind_outcome
  t_emitted :: bool
  on_listening :: "nat option"
  on_error :: "nat list"

record world =
  containers :: "container_obj list"
  servers :: "addr \<Rightarrow> server_obj"
  console :: "js_value list"
  transports :: "transport list"
  promises :: "promise list"

text \<open>
  A new \<^verbatim>\<open>Server\<close> has \<^verbatim>\<open>container = RootContainer\<close>, the process-wide container, and
  an empty Express application. The root container is the object at address 0.
\<close>

definition RootContainer :: addr where
  "RootContainer = 0"

definition new_server :: server_obj where
  "new_server = \<lparr>container = RootContainer, express_server = []\<rparr>"

definition initial_world :: world where
  "initial_world =
     \<lparr>containers = [\<lparr>registry = [], parent = None\<rparr>], servers = (\<lambda>a. new_server),
      console = [], transports = [], promises = []\<rparr>"

section \<open>Server.listen\<close>

definition HTTP_SERVER_TOKEN :: token where
  "HTTP_SERVER_TOKEN = Symbol ''HTTP_SERVER_TOKEN''"

text \<open>
  \<^verbatim>\<open>listen(port)\<close> returns a new promise whose executor runs at once:
  \<^verbatim>\<open>const http_server = this.express_server.listen(port, resolve)\<close> creates the transport
  and starts it on the port, with \<^verbatim>\<open>resolve\<close> as its \<^verbatim>\<open>listening\<close> callback;
  \<^verbatim>\<open>this.container.register(HTTP_SERVER_TOKEN, {useValue: http_server})\<close>;
  \<^verbatim>\<open>http_server.on('error', reject)\<close>. When \<^verbatim>\<open>express_server.listen\<close> throws, the
  exception leaves the executor before anything is registered, and the promise is
  rejected with it. The result is the promise (its index) and the world. The argument
  \<open>a\<close> is the transport's answer; a bind outcome is only stored in the transport.
\<close>

definition listen :: "addr \<Rightarrow> port \<Rightarrow> start \<Rightarrow> world \<Rightarrow> nat \<times> world" where
  "listen this port a W =
     (let p = length (promises W) in
        case transport_answer port a of
          Refused e \<Rightarrow> (p, W\<lparr>promises := promises W @ [reject_promise e Pending]\<rparr>)
        | Started out \<Rightarrow>
            (let t = length (transports W);
                 http_server = \<lparr>t_port = port, t_outcome = out, t_emitted = False,
                                on_listening = Some p, on_error = []\<rparr>;
                 cs = register (container (servers W this)) HTTP_SERVER_TOKEN (HttpServer t)
                        (containers W);
                 http_server' = http_server\<lparr>on_error := on_error http_server @ [p]\<rparr>
             in (p, W\<lparr>promises := promises W @ [Pending],
                       transports := transports W @ [http_server'],
                       containers := cs\<rparr>)))"

text \<open>Settling the promise at index \<open>p\<close> with \<^verbatim>\<open>resolve\<close> or \<^verbatim>\<open>reject\<close>.\<close>

definition settle :: "(promise \<Rightarrow> promise) \<Rightarrow> nat \<Rightarrow> world \<Rightarrow> world" where
  "settle f p W =
     (if p < length (promises W) then W\<lparr>promises := (promises W)[p := f (promises W ! p)]\<rparr> else W)"

text \<open>
  The later turn in which transport \<open>t\<close> emits \<^verbatim>\<open>listening\<close> or \<^verbatim>\<open>error\<close>.
\<close>

definition emit :: "nat \<Rightarrow> world \<Rightarrow> world" where
  "emit t W =
     (if t < length (transports W) \<and> \<not> t_emitted (transports W ! t) then
        (let tr = transports W ! t;
             W' = W\<lparr>transports := (transports W)[t := tr\<lparr>t_emitted := True\<rparr>]\<rparr>
         in case t_outcome tr of
              Bound \<Rightarrow> (case on_listening tr of None \<Rightarrow> W' | Some p \<Rightarrow> settle resolve_promise p W')
            | BindError e \<Rightarrow> fold (settle (reject_promise e)) (on_error tr) W')
      else W)"

section \<open>Server.wrapHandler\<close>

text \<open>
  \<^verbatim>\<open>let instance = null; if (typeof path === 'object' && 'eager' in path && path.eager)
  instance = this.container.resolve(h);\<close> outside any \<^verbatim>\<open>try\<close>, then the closure is
  returned. \<open>Inl e\<close> is the exception \<open>e\<close> leaving \<^verbatim>\<open>wrapHandler\<close>.
\<close>

definition wrapHandler :: "addr \<Rightarrow> path_params \<Rightarrow> klass \<Rightarrow> world \<Rightarrow> js_value + wrapper" where
  "wrapHandler this path h W =
     (if is_eager path then
        (case resolve (containers W) (container (servers W this)) h of
           Inl e \<Rightarrow> Inl e
         | Inr i \<Rightarrow> Inr \<lparr>w_this = this, w_class = h, w_instance = Some i\<rparr>)
      else Inr \<lparr>w_this = this, w_class = h, w_instance = None\<rparr>)"

section \<open>Server.attach and the registration calls\<close>

text \<open>\<^verbatim>\<open>handlers.map(h => this.wrapHandler(path, h))\<close>: in order, an exception ends the map.\<close>

fun wrap_all :: "addr \<Rightarrow> path_params \<Rightarrow> klass list \<Rightarrow> world \<Rightarrow> js_value + wrapper list" where
  "wrap_all this path [] W = Inr []"
| "wrap_all this path (h # hs) W =
     (case wrapHandler this path h W of
        Inl e \<Rightarrow> Inl e
      | Inr w \<Rightarrow> (case wrap_all this path hs W of Inl e \<Rightarrow> Inl e | Inr ws \<Rightarrow> Inr (w # ws)))"

text \<open>
  \<^verbatim>\<open>this.express_server[method]?.(<path>, ...handlers.map(...)); return this;\<close>
  The arguments are evaluated before the route table is called, so an exception in the
  map leaves \<^verbatim>\<open>attach\<close> with nothing registered. The route table appends the route.
\<close>

definition attach :: "addr \<Rightarrow> http_method \<Rightarrow> path_params \<Rightarrow> klass list \<Rightarrow> world \<Rightarrow> js_value + world" where
  "attach this m path handlers W =
     (case wrap_all this path handlers W of
        Inl e \<Rightarrow> Inl e
      | Inr ws \<Rightarrow>
          Inr (W\<lparr>servers := (servers W)
                 (this := (servers W this)
                    \<lparr>express_server := express_server (servers W this) @ [(m, route_path path, ws)]\<rparr>)\<rparr>))"

definition get :: "addr \<Rightarrow> path_params \<Rightarrow> klass list \<Rightarrow> world \<Rightarrow> js_value + world" where
  "get this path handlers W = attach this GET path handlers W"

definition post :: "addr \<Rightarrow> path_params \<Rightarrow> klass list \<Rightarrow> world \<Rightarrow> js_value + world" where
  "post this path handlers W = attach this POST path handlers W"

definition use :: "addr \<Rightarrow> path_params \<Rightarrow> klass list \<Rightarrow> world \<Rightarrow> js_value + world" where
  "use this path handlers W = attach this USE path handlers W"

section \<open>The dispatch wrapper\<close>

text \<open>
  One invocation of the closure \<^verbatim>\<open>async (req, res, next) => { ... }\<close>. Its observable steps
  are recorded in order; the request and the continuation are opaque identities.
\<close>

type_synonym request = nat

type_synonym continuation = nat

datatype event =
    Resolve string                              \<comment> \<open>\<^verbatim>\<open>this.container.resolve(h)\<close>\<close>
  | Handle request                              \<comment> \<open>\<^verbatim>\<open>instance.handle(req, res)\<close>\<close>
  | CallStatus nat                              \<comment> \<open>the wrapper's \<^verbatim>\<open>res.status(c)\<close>\<close>
  | CallSend js_value                           \<comment> \<open>the wrapper's \<^verbatim>\<open>res.send(b)\<close>\<close>
  | ConsoleError js_value                       \<comment> \<open>\<^verbatim>\<open>console.error(err)\<close>\<close>
  | Tick                                        \<comment> \<open>\<^verbatim>\<open>await new Promise(res => setTimeout(res, 0))\<close>\<close>
  | Next continuation                           \<comment> \<open>\<^verbatim>\<open>next()\<close>\<close>
  | CreateChild addr addr                       \<comment> \<open>\<^verbatim>\<open>this.container.createChildContainer()\<close>\<close>
  | SetContainer addr addr                      \<comment> \<open>\<^verbatim>\<open>instance.container = ...\<close>\<close>
  | Forward addr request response continuation  \<comment> \<open>\<^verbatim>\<open>instance.express_server(req, res, next)\<close>\<close>

text \<open>
  How the promise of the \<^verbatim>\<open>async\<close> closure ends: fulfilled, never settled (an \<^verbatim>\<open>await\<close>
  that never resumes), or rejected by an exception that left the closure.
\<close>

datatype ending = Completed | Stalled | Failed js_value

record run =
  cache :: "resolved_instance option"
  res :: response
  world_after :: world
  trace :: "event list"
  ending :: ending

definition internal_server_error :: js_value where
  "internal_server_error = Str ''Internal server error''"

text \<open>\<^verbatim>\<open>err?.message ?? err ?? `Error resolving handler: ${h}`\<close>\<close>

definition resolution_message :: "js_value \<Rightarrow> klass \<Rightarrow> js_value" where
  "resolution_message err h =
     (case message err of
        Some m \<Rightarrow> Str m
      | None \<Rightarrow> if nullish err then Str (''Error resolving handler: '' @ class_text h) else err)"

text \<open>The \<^verbatim>\<open>catch\<close> around the lazy resolution: \<^verbatim>\<open>res.send(...); return;\<close>\<close>

definition resolution_failed :: "js_value \<Rightarrow> klass \<Rightarrow> response \<Rightarrow> world \<Rightarrow> event list \<Rightarrow> run" where
  "resolution_failed err h r W tr =
     (let msg = resolution_message err h in
        case send msg r of
          Inl e \<Rightarrow> \<lparr>cache = None, res = r, world_after = W,
                    trace = tr @ [CallSend msg], ending = Failed e\<rparr>
        | Inr r' \<Rightarrow> \<lparr>cache = None, res = r', world_after = W,
                     trace = tr @ [CallSend msg], ending = Completed\<rparr>)"

text \<open>
  The \<^verbatim>\<open>instanceof Server\<close> branch: \<^verbatim>\<open>instance.container = this.container.createChildContainer();
  instance.express_server(req, res, next);\<close> and the closure ends.
\<close>

definition forward ::
  "addr \<Rightarrow> addr \<Rightarrow> resolved_instance option \<Rightarrow> request \<Rightarrow> response \<Rightarrow> continuation \<Rightarrow>
   world \<Rightarrow> event list \<Rightarrow> run" where
  "forward this s c req r k W tr =
     (let cur = container (servers W this) in
        case createChildContainer cur (containers W) of (child, cs) \<Rightarrow>
          \<lparr>cache = c, res = r,
           world_after = W\<lparr>containers := cs,
                           servers := (servers W)(s := (servers W s)\<lparr>container := child\<rparr>)\<rparr>,
           trace = tr @ [CreateChild cur child, SetContainer s child, Forward s req r k],
           ending = Completed\<rparr>)"

text \<open>
  After the \<^verbatim>\<open>try\<close>/\<^verbatim>\<open>catch\<close>: the one-tick yield, during which the work the handler left
  queued runs, then \<^verbatim>\<open>if (!res.headersSent) next();\<close>
\<close>

definition finish ::
  "handling \<Rightarrow> resolved_instance option \<Rightarrow> response \<Rightarrow> continuation \<Rightarrow> world \<Rightarrow> event list \<Rightarrow> run" where
  "finish g c r k W tr =
     (let r' = exec_ops (during_tick g) r in
        \<lparr>cache = c, res = r', world_after = W,
         trace = tr @ [Tick] @ (if \<not> headersSent r' then [Next k] else []),
         ending = Completed\<rparr>)"

text \<open>
  The \<^verbatim>\<open>catch\<close> around the handler call: \<^verbatim>\<open>res.status(500).send('Internal server error');
  console.error(err);\<close> An exception raised by \<^verbatim>\<open>send\<close> here leaves the closure.
\<close>

definition contain ::
  "js_value \<Rightarrow> handling \<Rightarrow> resolved_instance option \<Rightarrow> response \<Rightarrow> continuation \<Rightarrow> world \<Rightarrow>
   event list \<Rightarrow> run" where
  "contain err g c r k W tr =
     (case send internal_server_error (status 500 r) of
        Inl e \<Rightarrow> \<lparr>cache = c, res = status 500 r, world_after = W,
                  trace = tr @ [CallStatus 500, CallSend internal_server_error],
                  ending = Failed e\<rparr>
      | Inr r' \<Rightarrow>
          finish g c r' k (W\<lparr>console := console W @ [err]\<rparr>)
            (tr @ [CallStatus 500, CallSend internal_server_error, ConsoleError err]))"

text \<open>
  The \<^verbatim>\<open>else\<close> branch: \<^verbatim>\<open>const result = instance.handle(req, res);
  if (result && result instanceof Promise) await result;\<close> inside the \<^verbatim>\<open>try\<close>.
\<close>

definition call_handler ::
  "handler \<Rightarrow> resolved_instance option \<Rightarrow> request \<Rightarrow> response \<Rightarrow> continuation \<Rightarrow> world \<Rightarrow>
   event list \<Rightarrow> run" where
  "call_handler h c req r k W tr =
     (let g = handle h; r1 = exec_ops (until_settled g) r; tr1 = tr @ [Handle req] in
        case settled g of
          Returns \<Rightarrow> finish g c r1 k W tr1
        | Throws e \<Rightarrow> contain e g c r1 k W tr1
        | Fulfils \<Rightarrow> finish g c r1 k W tr1
        | Rejects e \<Rightarrow> contain e g c r1 k W tr1
        | Never \<Rightarrow> \<lparr>cache = c, res = r1, world_after = W, trace = tr1, ending = Stalled\<rparr>)"

definition branch ::
  "addr \<Rightarrow> resolved_instance \<Rightarrow> request \<Rightarrow> response \<Rightarrow> continuation \<Rightarrow> world \<Rightarrow> event list \<Rightarrow> run" where
  "branch this i req r k W tr =
     (case i of
        ServerInstance s \<Rightarrow> forward this s (Some i) req r k W tr
      | HandlerInstance h \<Rightarrow> call_handler h (Some i) req r k W tr)"

text \<open>
  \<^verbatim>\<open>if (instance === null) { try { instance = this.container.resolve(h); } catch (err) ... }\<close>:
  the instance this invocation works with (or the exception the \<^verbatim>\<open>catch\<close> receives), and
  the resolution it made, if it made one. \<^verbatim>\<open>this.container\<close> is read when the request
  arrives.
\<close>

definition obtain_instance :: "wrapper \<Rightarrow> world \<Rightarrow> (js_value + resolved_instance) \<times> event list" where
  "obtain_instance w W =
     (case w_instance w of
        None \<Rightarrow> (resolve (containers W) (container (servers W (w_this w))) (w_class w),
                  [Resolve (class_text (w_class w))])
      | Some i \<Rightarrow> (Inr i, []))"

definition invoke :: "wrapper \<Rightarrow> request \<Rightarrow> response \<Rightarrow> continuation \<Rightarrow> world \<Rightarrow> run" where
  "invoke w req r k W =
     (case obtain_instance w W of
        (Inl err, tr) \<Rightarrow> resolution_failed err (w_class w) r W tr
      | (Inr i, tr) \<Rightarrow> branch (w_this w) i req r k W tr)"

text \<open>The wrapper as the next invocation finds it: the same closure, with its variable.\<close>

definition wrapper_after :: "wrapper \<Rightarrow> run \<Rightarrow> wrapper" where
  "wrapper_after w x = w\<lparr>w_instance := cache x\<rparr>"

section \<open>Notions used to state the properties\<close>

text \<open>The calls a callback makes on the response, in order.\<close>

fun res_ops :: "cb_action list \<Rightarrow> res_op list" where
  "res_ops [] = []"
| "res_ops (Signal # as) = res_ops as"
| "res_ops (OnRes op # as) = op # res_ops as"


section \<open>Sample handlers, classes and worlds\<close>

text \<open>
  \<^verbatim>\<open>class HelloWorld { handle(req, res) { res.send('Hello world!'); } }\<close> of the examples,
  a middleware that writes nothing, and a handler that throws before writing anything.
\<close>

definition hello_world :: handler where
  "hello_world =
     Custom \<lparr>settled = Returns, until_settled = [Send (Str ''Hello world!'')], during_tick = []\<rparr>"

definition middleware :: handler where
  "middleware = Custom \<lparr>settled = Fulfils, until_settled = [], during_tick = []\<rparr>"

definition boom :: js_value where
  "boom = Obj (Some ''boom'') 7"

definition throwing :: handler where
  "throwing = Custom \<lparr>settled = Throws boom, until_settled = [], during_tick = []\<rparr>"

text \<open>
  \<^verbatim>\<open>RequireAccessToken.handle\<close> of the examples, on a request without a token:
  \<^verbatim>\<open>if (!token) res.status(401).send('Unauthorized. No access token provided.');\<close> does not
  return, so after the database check
  \<^verbatim>\<open>if (!authenticated) res.status(401).send('Unauthorized. Invalid access token.');\<close>
  sends on the finalised response, and the \<^verbatim>\<open>async\<close> method's promise rejects.
\<close>

definition require_access_token_no_token :: handler where
  "require_access_token_no_token =
     Custom \<lparr>settled = Rejects headers_sent_error,
             until_settled = [Status 401, Send (Str ''Unauthorized. No access token provided.''),
                              Status 401],
             during_tick = []\<rparr>"

definition cached :: "handler \<Rightarrow> wrapper" where
  "cached h =
     \<lparr>w_this = 0,
      w_class = \<lparr>class_text = ''class H'', params = [],
                 construct = (\<lambda>vs. Inr (HandlerInstance h))\<rparr>,
      w_instance = Some (HandlerInstance h)\<rparr>"

text \<open>
  A class whose constructor takes the value registered under \<^verbatim>\<open>DATABASE_TOKEN\<close> and whose
  \<^verbatim>\<open>handle\<close> sends that value; a class without parameters; a subclass of \<^verbatim>\<open>Server\<close> whose
  instance is the server object at address 1.
\<close>

definition DATABASE_TOKEN :: token where
  "DATABASE_TOKEN = Symbol ''DATABASE_TOKEN''"

definition Echo :: klass where
  "Echo =
     \<lparr>class_text = ''class Echo'', params = [DATABASE_TOKEN],
      construct = (\<lambda>vs. case vs of
          [v] \<Rightarrow> Inr (HandlerInstance
                   (Custom \<lparr>settled = Returns, until_settled = [Send v], during_tick = []\<rparr>))
        | _ \<Rightarrow> Inl Undefined)\<rparr>"

definition HelloWorld :: klass where
  "HelloWorld =
     \<lparr>class_text = ''class HelloWorld'', params = [],
      construct = (\<lambda>vs. Inr (HandlerInstance hello_world))\<rparr>"

definition ApiServer :: klass where
  "ApiServer =
     \<lparr>class_text = ''class ApiServer extends Server'', params = [],
      construct = (\<lambda>vs. Inr (ServerInstance 1))\<rparr>"

definition lazy_wrapper :: "klass \<Rightarrow> wrapper" where
  "lazy_wrapper h = \<lparr>w_this = 0, w_class = h, w_instance = None\<rparr>"

definition with_database :: "js_value \<Rightarrow> world \<Rightarrow> world" where
  "with_database v W = W\<lparr>containers := register RootContainer DATABASE_TOKEN v (containers W)\<rparr>"

text \<open>
  \<^verbatim>\<open>(req, res, next) => { next(); throw new Error('boom'); }\<close>,
  \<^verbatim>\<open>async (req, res, next) => { throw new Error('boom'); }\<close>, and
  \<^verbatim>\<open>(req, res, next) => { res.status(201); next(); }\<close>.
\<close>

definition signal_then_throw :: callback where
  "signal_then_throw =
     \<lparr>cb_sync = [Signal], cb_throws = Some boom, cb_later = [], cb_async_error = None\<rparr>"

definition rejects_later :: callback where
  "rejects_later =
     \<lparr>cb_sync = [], cb_throws = None, cb_later = [], cb_async_error = Some boom\<rparr>"

definition sets_status_then_signals :: callback where
  "sets_status_then_signals =
     \<lparr>cb_sync = [OnRes (Status 201), Signal], cb_throws = None, cb_later = [],
      cb_async_error = None\<rparr>"

section \<open>Facts about the response\<close>

lemma exec_op_headersSent: "headersSent r \<Longrightarrow> headersSent (exec_op op r)"
  by (cases op) (simp_all add: status_def send_def)

lemma exec_op_delivered: "headersSent r \<Longrightarrow> delivered (exec_op op r) = delivered r"
  by (cases op) (simp_all add: status_def send_def)

lemma exec_ops_headersSent: "headersSent r \<Longrightarrow> headersSent (exec_ops ops r)"
  unfolding exec_ops_def by (induction ops arbitrary: r) (simp_all add: exec_op_headersSent)

lemma exec_ops_delivered: "headersSent r \<Longrightarrow> delivered (exec_ops ops r) = delivered r"
  unfolding exec_ops_def
  by (induction ops arbitrary: r) (simp_all add: exec_op_headersSent exec_op_delivered)

section \<open>Facts about the dispatch wrapper\<close>

lemma obtain_instance_trace:
  "obtain_instance w W = (x, tr) \<Longrightarrow> tr = [] \<or> tr = [Resolve (class_text (w_class w))]"
  by (auto simp: obtain_instance_def split: option.splits)

lemma invoke_handler:
  "obtain_instance w W = (Inr (HandlerInstance h), tr) \<Longrightarrow>
   invoke w req r k W = call_handler h (Some (HandlerInstance h)) req r k W tr"
  by (simp add: invoke_def branch_def)

lemma invoke_server:
  "obtain_instance w W = (Inr (ServerInstance s), tr) \<Longrightarrow>
   invoke w req r k W = forward (w_this w) s (Some (ServerInstance s)) req r k W tr"
  by (simp add: invoke_def branch_def)

lemma invoke_cached:
  "w_instance w = Some i \<Longrightarrow> invoke w req r k W = branch (w_this w) i req r k W []"
  by (simp add: invoke_def obtain_instance_def)

lemma invoke_lazy:
  "w_instance w = None \<Longrightarrow>
   invoke w req r k W =
     (case resolve (containers W) (container (servers W (w_this w))) (w_class w) of
        Inl err \<Rightarrow> resolution_failed err (w_class w) r W [Resolve (class_text (w_class w))]
      | Inr i \<Rightarrow> branch (w_this w) i req r k W [Resolve (class_text (w_class w))])"
  by (simp add: invoke_def obtain_instance_def split: sum.splits)

lemma invoke_resolution_failed:
  "w_instance w = None \<Longrightarrow>
   resolve (containers W) (container (servers W (w_this w))) (w_class w) = Inl err \<Longrightarrow>
   invoke w req r k W = resolution_failed err (w_class w) r W [Resolve (class_text (w_class w))]"
  by (simp add: invoke_lazy)


lemma finish_fields:
  "res (finish g c r k W tr) = exec_ops (during_tick g) r"
  "world_after (finish g c r k W tr) = W"
  "ending (finish g c r k W tr) = Completed"
  "cache (finish g c r k W tr) = c"
  by (simp_all add: finish_def Let_def)

lemma contain_open:
  "\<not> headersSent r \<Longrightarrow>
   contain err g c r k W tr =
     finish g c (r\<lparr>statusCode := 500, headersSent := True,
                   delivered := Some (500, internal_server_error)\<rparr>) k
       (W\<lparr>console := console W @ [err]\<rparr>)
       (tr @ [CallStatus 500, CallSend internal_server_error, ConsoleError err])"
  by (simp add: contain_def send_def status_def)

lemma branch_cache: "cache (branch this i req r k W tr) = Some i"
  by (auto simp: branch_def forward_def call_handler_def contain_def finish_def Let_def
                 createChildContainer_def
           split: resolved_instance.splits completion.splits sum.splits prod.splits)

lemma branch_trace:
  "\<exists>rest. trace (branch this i req r k W tr) = tr @ rest \<and> (\<forall>t. Resolve t \<notin> set rest)"
  by (auto simp: branch_def forward_def call_handler_def contain_def finish_def Let_def
                 createChildContainer_def
           split: resolved_instance.splits completion.splits sum.splits prod.splits)

lemma wrap_all_lazy:
  "\<not> is_eager path \<Longrightarrow>
   wrap_all this path hs W = Inr (map (\<lambda>h. \<lparr>w_this = this, w_class = h, w_instance = None\<rparr>) hs)"
  by (induction hs) (simp_all add: wrapHandler_def)

lemma wrap_all_first_failure:
  assumes "is_eager path"
    and "\<forall>h' \<in> set pre. \<exists>i. resolve (containers W) (container (servers W this)) h' = Inr i"
    and "resolve (containers W) (container (servers W this)) h = Inl err"
  shows "wrap_all this path (pre @ h # rest) W = Inl err"
  using assms by (induction pre) (auto simp: wrapHandler_def)

section \<open>Facts about the injection scope\<close>

lemma resolve_token_registered:
  assumes "a < length cs"
  shows "resolve_token (register a t v cs) a t = Some v"
proof -
  obtain n where n: "length cs = Suc n"
    using assms by (cases "length cs") auto
  show ?thesis
    using assms by (simp add: resolve_token_def register_def n)
qed

section \<open>Facts about the adapter's promise\<close>

lemma res_ops_append: "res_ops (xs @ ys) = res_ops xs @ res_ops ys"
  by (induction xs rule: res_ops.induct) simp_all

lemma cb_run_snoc: "cb_run (as @ [a]) s = cb_step a (cb_run as s)"
  by (simp add: cb_run_def)

lemma cb_step_promise:
  "fst (cb_step a (p, early, late)) = (if p = Pending \<and> a = Signal then Fulfilled else p)"
  by (cases a; cases p) simp_all

lemma cb_run_promise:
  "fst (cb_run as (p, early, late)) =
     (if p = Pending \<and> Signal \<in> set as then Fulfilled else p)"
proof (induction as rule: rev_induct)
  case Nil
  show ?case by (simp add: cb_run_def)
next
  case (snoc a as)
  obtain p' e' l' where run: "cb_run as (p, early, late) = (p', e', l')"
    by (cases "cb_run as (p, early, late)")
  with snoc have p': "p' = (if p = Pending \<and> Signal \<in> set as then Fulfilled else p)"
    by simp
  have "fst (cb_run (as @ [a]) (p, early, late)) = fst (cb_step a (p', e', l'))"
    by (simp add: cb_run_snoc run)
  then show ?case
    by (auto simp: cb_step_promise p')
qed

lemma cb_run_calls:
  "late = [] \<or> p \<noteq> Pending \<Longrightarrow>
   (case cb_run as (p, early, late) of (p', early', late') \<Rightarrow>
      early' @ late' = early @ late @ res_ops as \<and> (late' = [] \<or> p' \<noteq> Pending))"
proof (induction as rule: rev_induct)
  case Nil
  then show ?case by (simp add: cb_run_def)
next
  case (snoc a as)
  obtain p' e' l' where run: "cb_run as (p, early, late) = (p', e', l')"
    by (cases "cb_run as (p, early, late)")
  with snoc have ih: "e' @ l' = early @ late @ res_ops as" "l' = [] \<or> p' \<noteq> Pending"
    by auto
  show ?case using ih
    by (cases a; cases p') (auto simp: cb_run_snoc run res_ops_append)
qed

lemma executor_promise:
  "fst (executor f) =
     (if Signal \<in> set (cb_sync f) then Fulfilled
      else case cb_throws f of None \<Rightarrow> Pending | Some e \<Rightarrow> Rejected e)"
proof -
  obtain p e l where run: "cb_run (cb_sync f) (Pending, [], []) = (p, e, l)"
    by (cases "cb_run (cb_sync f) (Pending, [], [])")
  have "p = (if Signal \<in> set (cb_sync f) then Fulfilled else Pending)"
    using cb_run_promise [of "cb_sync f" Pending "[]" "[]"] by (simp add: run)
  then show ?thesis
    by (simp add: executor_def run split: option.splits)
qed

lemma promise_after:
  "fst (cb_run as (executor f)) =
     (if Signal \<in> set (cb_sync f) then Fulfilled
      else case cb_throws f of
             None \<Rightarrow> if Signal \<in> set as then Fulfilled else Pending
           | Some e \<Rightarrow> Rejected e)"
proof -
  obtain p e l where ex: "executor f = (p, e, l)" by (cases "executor f")
  have p: "p = (if Signal \<in> set (cb_sync f) then Fulfilled
                else case cb_throws f of None \<Rightarrow> Pending | Some e \<Rightarrow> Rejected e)"
    using executor_promise [of f] by (simp add: ex)
  show ?thesis
    unfolding ex cb_run_promise by (simp add: p split: option.splits)
qed

lemma adapter_calls:
  "until_settled (handle (Adapter f)) @ during_tick (handle (Adapter f)) =
     res_ops (cb_sync f @ cb_later f)"
proof -
  obtain p e l where run: "cb_run (cb_sync f) (Pending, [], []) = (p, e, l)"
    by (cases "cb_run (cb_sync f) (Pending, [], [])")
  have 1: "e @ l = res_ops (cb_sync f)" "l = [] \<or> p \<noteq> Pending"
    using cb_run_calls [where late = "[]" and p = Pending and as = "cb_sync f" and early = "[]"]
    by (auto simp: run)
  obtain q where ex: "executor f = (q, e, l)" and q: "l = [] \<or> q \<noteq> Pending"
    using 1(2) by (cases "cb_throws f"; cases p) (auto simp: executor_def run)
  obtain p' e' l' where run': "cb_run (cb_later f) (q, e, l) = (p', e', l')"
    by (cases "cb_run (cb_later f) (q, e, l)")
  have "e' @ l' = e @ l @ res_ops (cb_later f)"
    using cb_run_calls [OF q, where as = "cb_later f" and early = e] by (simp add: run')
  then show ?thesis
    using 1(1) by (simp add: adapter_run_def ex run' res_ops_append)
qed

lemma adapter_settled: "settled (handle (Adapter f)) = completion_of (adapter_promise f)"
  by (cases "adapter_run f") (simp add: adapter_promise_def)

section \<open>Evaluating the model\<close>

lemmas run_defs =
  invoke_def obtain_instance_def branch_def call_handler_def contain_def finish_def
  forward_def resolution_failed_def resolution_message_def exec_ops_def send_def status_def
  resolve_def createChildContainer_def internal_server_error_def headers_sent_error_def
  new_response_def

lemmas world_defs =
  initial_world_def new_server_def RootContainer_def register_def resolve_token_def
  unregistered_def with_database_def DATABASE_TOKEN_def

lemmas sample_defs =
  cached_def lazy_wrapper_def hello_world_def middleware_def throwing_def boom_def
  require_access_token_no_token_def Echo_def HelloWorld_def ApiServer_def

section \<open>Continuation is inferred after one tick\<close>



section \<open>A failing handler is contained\<close>

text \<open>
  C2, as amended. Take an invocation whose instance is a handler capability whose handle
  operation throws or whose promise rejects with \<open>err\<close>, while the response has not been
  finalised by then. Then the client receives status 500 with the body
  \<^verbatim>\<open>'Internal server error'\<close>, whatever \<open>err\<close> is; \<open>err\<close> is appended to the console's error
  output; the wrapper's own promise is fulfilled, so nothing propagates out of it; and
  \<^verbatim>\<open>next\<close> is not called.
\<close>

theorem handler_failure_contained:
  assumes inst: "obtain_instance w W = (Inr (HandlerInstance h), tr)"
    and fails: "settled (handle h) = Throws err \<or> settled (handle h) = Rejects err"
    and still_open: "\<not> headersSent (exec_ops (until_settled (handle h)) r)"
  shows "delivered (res (invoke w req r k W)) = Some (500, Str ''Internal server error'')
       \<and> headersSent (res (invoke w req r k W))
       \<and> console (world_after (invoke w req r k W)) = console W @ [err]
       \<and> ending (invoke w req r k W) = Completed
       \<and> (\<forall>k'. Next k' \<notin> set (trace (invoke w req r k W)))"
proof -
  let ?g = "handle h"
  let ?c = "Some (HandlerInstance h)"
  let ?r1 = "exec_ops (until_settled ?g) r"
  let ?r2 = "?r1\<lparr>statusCode := 500, headersSent := True,
                  delivered := Some (500, internal_server_error)\<rparr>"
  let ?tr = "tr @ [Handle req] @ [CallStatus 500, CallSend internal_server_error, ConsoleError err]"
  have tr: "\<forall>k'. Next k' \<notin> set tr"
    using obtain_instance_trace [OF inst] by auto
  have "invoke w req r k W = contain err ?g ?c ?r1 k W (tr @ [Handle req])"
    using fails by (auto simp: invoke_handler [OF inst] call_handler_def Let_def)
  then have run: "invoke w req r k W = finish ?g ?c ?r2 k (W\<lparr>console := console W @ [err]\<rparr>) ?tr"
    by (simp add: contain_open [OF still_open])
  have sent: "headersSent (exec_ops (during_tick ?g) ?r2)"
    by (rule exec_ops_headersSent) simp
  have body: "delivered (exec_ops (during_tick ?g) ?r2) = Some (500, internal_server_error)"
    by (simp add: exec_ops_delivered)
  have "trace (invoke w req r k W) = ?tr @ [Tick]"
    using sent by (simp add: run finish_def Let_def)
  then have "\<forall>k'. Next k' \<notin> set (trace (invoke w req r k W))"
    using tr by simp
  then show ?thesis
    using sent body by (simp add: run finish_fields internal_server_error_def)
qed

theorem handler_failure_contained_witness:
  "settled (handle throwing) = Throws boom
   \<and> \<not> headersSent (exec_ops (until_settled (handle throwing)) new_response)
   \<and> delivered (res (invoke (cached throwing) 1 new_response 2 initial_world)) =
       Some (500, Str ''Internal server error'')
   \<and> console (world_after (invoke (cached throwing) 1 new_response 2 initial_world)) = [boom]
   \<and> ending (invoke (cached throwing) 1 new_response 2 initial_world) = Completed
   \<and> Next 2 \<notin> set (trace (invoke (cached throwing) 1 new_response 2 initial_world))"
proof -
  have t1: "obtain_instance (cached throwing) initial_world =
              (Inr (HandlerInstance throwing), [])"
    by (simp add: obtain_instance_def cached_def)
  have t2: "settled (handle throwing) = Throws boom \<or> settled (handle throwing) = Rejects boom"
    by (simp add: throwing_def)
  have t3: "\<not> headersSent (exec_ops (until_settled (handle throwing)) new_response)"
    by (simp add: throwing_def exec_ops_def new_response_def)
  show ?thesis
    using handler_failure_contained [OF t1 t2 t3, where req = 1 and k = 2] t3
    by (simp add: throwing_def initial_world_def)
qed

text \<open>
  The claim as stated fails when the handler finalised the response before it failed, as
  \<^verbatim>\<open>RequireAccessToken\<close> of the examples does on a request without a token: the client has
  received the handler's 401 response, \<^verbatim>\<open>res.status(500).send(...)\<close> raises inside the
  \<^verbatim>\<open>catch\<close> block, nothing is written to the console, and the wrapper's promise rejects.
\<close>

theorem handler_failure_after_send_counterexample:
  "settled (handle require_access_token_no_token) = Rejects headers_sent_error
   \<and> delivered (res (invoke (cached require_access_token_no_token) 1 new_response 2 initial_world)) =
       Some (401, Str ''Unauthorized. No access token provided.'')
   \<and> delivered (res (invoke (cached require_access_token_no_token) 1 new_response 2 initial_world)) \<noteq>
       Some (500, Str ''Internal server error'')
   \<and> console (world_after
        (invoke (cached require_access_token_no_token) 1 new_response 2 initial_world)) = []
   \<and> ending (invoke (cached require_access_token_no_token) 1 new_response 2 initial_world) =
       Failed headers_sent_error"
  by (simp add: run_defs sample_defs initial_world_def)

section \<open>A failing lazy resolution\<close>

text \<open>
  C3. Take an invocation of a wrapper whose instance has not been resolved, and let the
  resolution of its class fail with \<open>err\<close>. Then the wrapper makes one resolution attempt
  and one call on the response, \<^verbatim>\<open>res.send\<close> with the message derived from the error: the
  error's \<^verbatim>\<open>message\<close> if it has one, else the error itself, else (for \<^verbatim>\<open>null\<close> and
  \<^verbatim>\<open>undefined\<close>) the fallback text with the class. On a response that was still open the
  client receives that message as the body. \<^verbatim>\<open>next\<close> is not called, nothing follows the
  send (the resolution is not attempted again for this request), and the closure ends;
  the wrapper's variable stays empty.
\<close>

theorem resolution_failure_reported:
  assumes lazy: "w_instance w = None"
    and fails: "resolve (containers W) (container (servers W (w_this w))) (w_class w) = Inl err"
  shows "trace (invoke w req r k W) =
           [Resolve (class_text (w_class w)), CallSend (resolution_message err (w_class w))]
       \<and> (\<not> headersSent r \<longrightarrow>
            delivered (res (invoke w req r k W)) =
              Some (statusCode r, resolution_message err (w_class w))
            \<and> ending (invoke w req r k W) = Completed)
       \<and> resolution_message err (w_class w) =
           (case err of
              Obj (Some m) i \<Rightarrow> Str m
            | Undefined \<Rightarrow> Str (''Error resolving handler: '' @ class_text (w_class w))
            | Null \<Rightarrow> Str (''Error resolving handler: '' @ class_text (w_class w))
            | _ \<Rightarrow> err)
       \<and> (\<forall>k'. Next k' \<notin> set (trace (invoke w req r k W)))
       \<and> count_list (trace (invoke w req r k W)) (Resolve (class_text (w_class w))) = 1
       \<and> ending (invoke w req r k W) \<noteq> Stalled
       \<and> cache (invoke w req r k W) = None
       \<and> world_after (invoke w req r k W) = W"
  unfolding invoke_resolution_failed [OF lazy fails]
  by (auto simp: resolution_failed_def Let_def send_def resolution_message_def nullish_def
           split: option.splits js_value.splits)

theorem resolution_failure_reported_witness:
  "resolve (containers initial_world) (container (servers initial_world 0)) Echo =
     Inl (unregistered DATABASE_TOKEN)
   \<and> trace (invoke (lazy_wrapper Echo) 1 new_response 2 initial_world) =
       [Resolve ''class Echo'',
        CallSend (Str ''Attempted to resolve unregistered dependency token: DATABASE_TOKEN'')]
   \<and> delivered (res (invoke (lazy_wrapper Echo) 1 new_response 2 initial_world)) =
       Some (200, Str ''Attempted to resolve unregistered dependency token: DATABASE_TOKEN'')
   \<and> ending (invoke (lazy_wrapper Echo) 1 new_response 2 initial_world) = Completed
   \<and> cache (invoke (lazy_wrapper Echo) 1 new_response 2 initial_world) = None"
proof -
  have e1: "w_instance (lazy_wrapper Echo) = None"
    by (simp add: lazy_wrapper_def)
  have e2: "resolve (containers initial_world)
              (container (servers initial_world (w_this (lazy_wrapper Echo))))
              (w_class (lazy_wrapper Echo)) = Inl (unregistered DATABASE_TOKEN)"
    by (simp add: resolve_def lazy_wrapper_def Echo_def world_defs)
  have e3: "\<not> headersSent new_response"
    by (simp add: new_response_def)
  show ?thesis
    using resolution_failure_reported [OF e1 e2, where req = 1 and r = new_response and k = 2] e2 e3
    by (simp add: lazy_wrapper_def Echo_def new_response_def resolution_message_def
          unregistered_def DATABASE_TOKEN_def)
qed

section \<open>A failing lazy resolution sets no status\<close>

text \<open>
  C10. When a lazy resolution fails, the wrapper never calls \<^verbatim>\<open>res.status\<close>: the status
  code of the response is what it was, so on a response with the default status 200 the
  client receives 200 with the error-derived message as the body. A handler that fails on
  the same response is answered with status 500.
\<close>

theorem resolution_failure_keeps_status:
  assumes lazy: "w_instance w = None"
    and fails: "resolve (containers W) (container (servers W (w_this w))) (w_class w) = Inl err"
  shows "statusCode (res (invoke w req r k W)) = statusCode r
       \<and> (\<forall>c. CallStatus c \<notin> set (trace (invoke w req r k W)))
       \<and> delivered (res (invoke w req new_response k W)) =
           Some (200, resolution_message err (w_class w))
       \<and> delivered (res (invoke (cached throwing) req new_response k W)) =
           Some (500, Str ''Internal server error'')"
proof -
  have "delivered (res (invoke (cached throwing) req new_response k W)) =
          Some (500, Str ''Internal server error'')"
    by (simp add: run_defs cached_def throwing_def)
  then show ?thesis
    unfolding invoke_resolution_failed [OF lazy fails]
    by (auto simp: resolution_failed_def Let_def send_def new_response_def split: sum.splits)
qed

theorem resolution_failure_keeps_status_witness:
  "w_instance (lazy_wrapper Echo) = None
   \<and> statusCode (res (invoke (lazy_wrapper Echo) 1 new_response 2 initial_world)) = 200
   \<and> CallStatus 500 \<notin> set (trace (invoke (lazy_wrapper Echo) 1 new_response 2 initial_world))
   \<and> delivered (res (invoke (lazy_wrapper Echo) 1 new_response 2 initial_world)) =
       Some (200, Str ''Attempted to resolve unregistered dependency token: DATABASE_TOKEN'')"
proof -
  have e1: "w_instance (lazy_wrapper Echo) = None"
    by (simp add: lazy_wrapper_def)
  have e2: "resolve (containers initial_world)
              (container (servers initial_world (w_this (lazy_wrapper Echo))))
              (w_class (lazy_wrapper Echo)) = Inl (unregistered DATABASE_TOKEN)"
    by (simp add: resolve_def lazy_wrapper_def Echo_def world_defs)
  show ?thesis
    using resolution_failure_keeps_status [OF e1 e2, where req = 1 and r = new_response and k = 2] e1
    by (simp add: lazy_wrapper_def Echo_def new_response_def resolution_message_def
          unregistered_def DATABASE_TOKEN_def)
qed

section \<open>Forwarding into a nested server\<close>

text \<open>
  C5. Take an invocation whose instance (cached, or resolved by this invocation) is a
  \<^verbatim>\<open>Server\<close>, the object \<open>s\<close>. The wrapper creates a container whose address is new (the
  store grows by one object), whose registry is empty and whose parent is the container
  its own server holds when the request arrives; it stores the new container's address in
  \<open>s\<close>; it calls the Express application of \<open>s\<close> with the request, the response as it
  received it, and the continuation. That call is its last step: it does not yield,
  does not call \<^verbatim>\<open>next\<close>, does not touch the response or the console.
\<close>

theorem mount_point_forwarded:
  assumes inst: "obtain_instance w W = (Inr (ServerInstance s), tr)"
  shows "containers (world_after (invoke w req r k W)) =
           containers W @ [\<lparr>registry = [], parent = Some (container (servers W (w_this w)))\<rparr>]
       \<and> container (servers (world_after (invoke w req r k W)) s) = length (containers W)
       \<and> trace (invoke w req r k W) =
           tr @ [CreateChild (container (servers W (w_this w))) (length (containers W)),
                 SetContainer s (length (containers W)),
                 Forward s req r k]
       \<and> Tick \<notin> set (trace (invoke w req r k W))
       \<and> (\<forall>k'. Next k' \<notin> set (trace (invoke w req r k W)))
       \<and> res (invoke w req r k W) = r
       \<and> console (world_after (invoke w req r k W)) = console W
       \<and> ending (invoke w req r k W) = Completed"
  using obtain_instance_trace [OF inst]
  unfolding invoke_server [OF inst]
  by (auto simp: forward_def Let_def createChildContainer_def)

theorem mount_point_forwarded_witness:
  "obtain_instance (lazy_wrapper ApiServer) initial_world =
     (Inr (ServerInstance 1), [Resolve ''class ApiServer extends Server''])
   \<and> containers (world_after (invoke (lazy_wrapper ApiServer) 1 new_response 2 initial_world)) =
       [\<lparr>registry = [], parent = None\<rparr>, \<lparr>registry = [], parent = Some 0\<rparr>]
   \<and> container (servers (world_after
        (invoke (lazy_wrapper ApiServer) 1 new_response 2 initial_world)) 1) = 1
   \<and> trace (invoke (lazy_wrapper ApiServer) 1 new_response 2 initial_world) =
       [Resolve ''class ApiServer extends Server'', CreateChild 0 1, SetContainer 1 1,
        Forward 1 1 new_response 2]"
proof -
  have a1: "obtain_instance (lazy_wrapper ApiServer) initial_world =
              (Inr (ServerInstance 1), [Resolve ''class ApiServer extends Server''])"
    by (simp add: obtain_instance_def lazy_wrapper_def ApiServer_def resolve_def)
  show ?thesis
    using mount_point_forwarded [OF a1, where req = 1 and r = new_response and k = 2] a1
    by (simp add: lazy_wrapper_def world_defs)
qed

section \<open>Eager and lazy resolution\<close>

text \<open>
  C4. With \<^verbatim>\<open>eager: true\<close> in the path configuration, \<^verbatim>\<open>wrapHandler\<close> resolves the class
  when the route is bound, in the world as it is then: the closure holds that instance,
  and whatever the world is when a request arrives (providers registered since), the
  invocation resolves nothing and works with the instance of bind time. Without the
  flag, \<^verbatim>\<open>wrapHandler\<close> resolves nothing; the first invocation resolves the class in the
  world as it is when the request arrives and works with that instance, and the
  invocations after it resolve nothing.
\<close>

theorem eager_at_bind_lazy_at_first_request:
  "(is_eager path \<longrightarrow>
      (\<forall>i. resolve (containers W) (container (servers W this)) h = Inr i \<longrightarrow>
         (\<exists>w. wrapHandler this path h W = Inr w \<and> w_instance w = Some i
            \<and> (\<forall>req r k W'.
                 invoke w req r k W' = branch this i req r k W' []
                 \<and> cache (invoke w req r k W') = Some i
                 \<and> (\<forall>t. Resolve t \<notin> set (trace (invoke w req r k W')))))))
   \<and> (\<not> is_eager path \<longrightarrow>
        (\<exists>w. wrapHandler this path h W = Inr w \<and> w_instance w = None
           \<and> (\<forall>req r k W' i.
                resolve (containers W') (container (servers W' this)) h = Inr i \<longrightarrow>
                  invoke w req r k W' = branch this i req r k W' [Resolve (class_text h)]
                  \<and> cache (invoke w req r k W') = Some i
                  \<and> (\<forall>req' r' k' W'' t. Resolve t \<notin> set (trace
                        (invoke (wrapper_after w (invoke w req r k W')) req' r' k' W''))))))"
proof (intro conjI impI allI)
  fix i
  assume eager: "is_eager path"
    and ok: "resolve (containers W) (container (servers W this)) h = Inr i"
  let ?w = "\<lparr>w_this = this, w_class = h, w_instance = Some i\<rparr>"
  have "\<forall>req r k W' t. Resolve t \<notin> set (trace (branch this i req r k W' []))"
    using branch_trace [of this i _ _ _ _ "[]"] by (metis append_Nil)
  then have "\<forall>req r k W'.
       invoke ?w req r k W' = branch this i req r k W' []
       \<and> cache (invoke ?w req r k W') = Some i
       \<and> (\<forall>t. Resolve t \<notin> set (trace (invoke ?w req r k W')))"
    by (simp add: invoke_cached branch_cache)
  moreover have "wrapHandler this path h W = Inr ?w"
    using eager ok by (simp add: wrapHandler_def)
  moreover have "w_instance ?w = Some i"
    by simp
  ultimately show "\<exists>w. wrapHandler this path h W = Inr w \<and> w_instance w = Some i
      \<and> (\<forall>req r k W'.
           invoke w req r k W' = branch this i req r k W' []
           \<and> cache (invoke w req r k W') = Some i
           \<and> (\<forall>t. Resolve t \<notin> set (trace (invoke w req r k W'))))"
    by blast
next
  assume lazy: "\<not> is_eager path"
  let ?w = "\<lparr>w_this = this, w_class = h, w_instance = None\<rparr>"
  have later: "\<forall>i req' r' k' W'' t.
      Resolve t \<notin> set (trace (invoke (?w\<lparr>w_instance := Some i\<rparr>) req' r' k' W''))"
    using branch_trace [of this _ _ _ _ _ "[]"] by (simp add: invoke_cached)
  have "\<forall>req r k W' i.
      resolve (containers W') (container (servers W' this)) h = Inr i \<longrightarrow>
        invoke ?w req r k W' = branch this i req r k W' [Resolve (class_text h)]
        \<and> cache (invoke ?w req r k W') = Some i
        \<and> (\<forall>req' r' k' W'' t. Resolve t \<notin> set (trace
              (invoke (wrapper_after ?w (invoke ?w req r k W')) req' r' k' W'')))"
    using later by (simp add: invoke_lazy branch_cache wrapper_after_def)
  moreover have "wrapHandler this path h W = Inr ?w"
    using lazy by (simp add: wrapHandler_def)
  moreover have "w_instance ?w = None"
    by simp
  ultimately show "\<exists>w. wrapHandler this path h W = Inr w \<and> w_instance w = None
      \<and> (\<forall>req r k W' i.
           resolve (containers W') (container (servers W' this)) h = Inr i \<longrightarrow>
             invoke w req r k W' = branch this i req r k W' [Resolve (class_text h)]
             \<and> cache (invoke w req r k W') = Some i
             \<and> (\<forall>req' r' k' W'' t. Resolve t \<notin> set (trace
                   (invoke (wrapper_after w (invoke w req r k W')) req' r' k' W''))))"
    by blast
qed

text \<open>
  The provider of \<^verbatim>\<open>DATABASE_TOKEN\<close> is \<^verbatim>\<open>'v1'\<close> when the routes are bound and is
  registered again as \<^verbatim>\<open>'v2'\<close> before the first request: the eagerly bound handler
  answers with \<^verbatim>\<open>'v1'\<close>, the lazily bound one with \<^verbatim>\<open>'v2'\<close>.
\<close>

theorem eager_at_bind_lazy_at_first_request_witness:
  "is_eager (Config (PString ''/'') (Some True))
   \<and> \<not> is_eager (Bare (PString ''/''))
   \<and> (\<exists>w. wrapHandler 0 (Config (PString ''/'') (Some True)) Echo
             (with_database (Str ''v1'') initial_world) = Inr w
          \<and> delivered (res (invoke w 1 new_response 2
               (with_database (Str ''v2'') (with_database (Str ''v1'') initial_world)))) =
              Some (200, Str ''v1''))
   \<and> (\<exists>w. wrapHandler 0 (Bare (PString ''/'')) Echo
             (with_database (Str ''v1'') initial_world) = Inr w
          \<and> delivered (res (invoke w 1 new_response 2
               (with_database (Str ''v2'') (with_database (Str ''v1'') initial_world)))) =
              Some (200, Str ''v2''))"
proof -
  let ?W1 = "with_database (Str ''v1'') initial_world"
  let ?W2 = "with_database (Str ''v2'') ?W1"
  let ?h1 = "HandlerInstance (Custom \<lparr>settled = Returns, until_settled = [Send (Str ''v1'')],
                during_tick = []\<rparr>)"
  let ?h2 = "HandlerInstance (Custom \<lparr>settled = Returns, until_settled = [Send (Str ''v2'')],
                during_tick = []\<rparr>)"
  have e: "is_eager (Config (PString ''/'') (Some True))" and l: "\<not> is_eager (Bare (PString ''/''))"
    by simp_all
  have r1: "resolve (containers ?W1) (container (servers ?W1 0)) Echo = Inr ?h1"
    by (simp add: resolve_def Echo_def world_defs)
  have r2: "resolve (containers ?W2) (container (servers ?W2 0)) Echo = Inr ?h2"
    by (simp add: resolve_def Echo_def world_defs)
  have b1: "delivered (res (branch 0 ?h1 1 new_response 2 ?W2 [])) = Some (200, Str ''v1'')"
    by (simp add: run_defs)
  have b2: "delivered (res (branch 0 ?h2 1 new_response 2 ?W2 [Resolve (class_text Echo)])) =
              Some (200, Str ''v2'')"
    by (simp add: run_defs)
  note thm1 = eager_at_bind_lazy_at_first_request
    [where path = "Config (PString ''/'') (Some True)" and W = ?W1 and this = 0 and h = Echo]
  note thm2 = eager_at_bind_lazy_at_first_request
    [where path = "Bare (PString ''/'')" and W = ?W1 and this = 0 and h = Echo]
  from thm1 e r1 obtain w where w: "wrapHandler 0 (Config (PString ''/'') (Some True)) Echo ?W1 = Inr w"
    and "invoke w 1 new_response 2 ?W2 = branch 0 ?h1 1 new_response 2 ?W2 []"
    by blast
  then have eager: "\<exists>w. wrapHandler 0 (Config (PString ''/'') (Some True)) Echo ?W1 = Inr w
      \<and> delivered (res (invoke w 1 new_response 2 ?W2)) = Some (200, Str ''v1'')"
    using b1 by auto
  from thm2 l r2 obtain w' where "wrapHandler 0 (Bare (PString ''/'')) Echo ?W1 = Inr w'"
    and "invoke w' 1 new_response 2 ?W2 =
           branch 0 ?h2 1 new_response 2 ?W2 [Resolve (class_text Echo)]"
    by blast
  then have lazy: "\<exists>w. wrapHandler 0 (Bare (PString ''/'')) Echo ?W1 = Inr w
      \<and> delivered (res (invoke w 1 new_response 2 ?W2)) = Some (200, Str ''v2'')"
    using b2 by auto
  show ?thesis
    using e l eager lazy by blast
qed

section \<open>A failing eager resolution\<close>

text \<open>
  C9. With \<^verbatim>\<open>eager: true\<close>, when the resolution of one of the classes fails with \<open>err\<close>
  (the classes before it in the call having resolved), \<open>err\<close> leaves \<^verbatim>\<open>wrapHandler\<close>
  uncaught and leaves the registration call (\<^verbatim>\<open>attach\<close>, so \<^verbatim>\<open>get\<close>, \<^verbatim>\<open>post\<close> and \<^verbatim>\<open>use\<close>):
  the call produces no wrapper and registers no route, so there is no response that a
  message could be written to. Without the flag the same registration succeeds, and the
  failure is met by the wrapper when a request arrives.
\<close>

theorem eager_failure_leaves_registration:
  assumes eager: "is_eager path"
    and before: "\<forall>h' \<in> set pre. \<exists>i. resolve (containers W) (container (servers W this)) h' = Inr i"
    and fails: "resolve (containers W) (container (servers W this)) h = Inl err"
  shows "wrapHandler this path h W = Inl err
       \<and> attach this m path (pre @ h # rest) W = Inl err
       \<and> get this path (pre @ h # rest) W = Inl err
       \<and> post this path (pre @ h # rest) W = Inl err
       \<and> use this path (pre @ h # rest) W = Inl err
       \<and> (\<forall>path'. \<not> is_eager path' \<longrightarrow>
            (\<exists>W'. attach this m path' (pre @ h # rest) W = Inr W'))"
  using eager fails wrap_all_first_failure [OF eager before fails]
  by (simp add: wrapHandler_def attach_def get_def post_def use_def wrap_all_lazy)

theorem eager_failure_leaves_registration_witness:
  "is_eager (Config (PString ''/'') (Some True))
   \<and> resolve (containers initial_world) (container (servers initial_world 0)) Echo =
       Inl (unregistered DATABASE_TOKEN)
   \<and> get 0 (Config (PString ''/'') (Some True)) [HelloWorld, Echo] initial_world =
       Inl (Obj (Some ''Attempted to resolve unregistered dependency token: DATABASE_TOKEN'') 1)"
proof -
  have e: "is_eager (Config (PString ''/'') (Some True))"
    by simp
  have b: "\<forall>h' \<in> set [HelloWorld].
             \<exists>i. resolve (containers initial_world) (container (servers initial_world 0)) h' = Inr i"
    by (simp add: resolve_def HelloWorld_def)
  have f: "resolve (containers initial_world) (container (servers initial_world 0)) Echo =
             Inl (unregistered DATABASE_TOKEN)"
    by (simp add: resolve_def Echo_def world_defs)
  show ?thesis
    using eager_failure_leaves_registration [OF e b f, where rest = "[]"] e f
    by (simp add: unregistered_def DATABASE_TOKEN_def)
qed

section \<open>Bare patterns that are not strings\<close>

text \<open>
  C8. The path type admits a bare \<^verbatim>\<open>RegExp\<close> and a bare array of patterns. For either,
  \<^verbatim>\<open>attach\<close> registers the route with \<^verbatim>\<open>null\<close> as its path, not with the pattern given;
  the wrappers are made as for any path without the eager flag.
\<close>

theorem attach_bare_pattern_gives_null:
  "attach this m (Bare (PRegExp x)) hs W =
     Inr (W\<lparr>servers := (servers W)(this := (servers W this)
            \<lparr>express_server := express_server (servers W this) @
               [(m, None, map (\<lambda>h. \<lparr>w_this = this, w_class = h, w_instance = None\<rparr>) hs)]\<rparr>)\<rparr>)
   \<and> attach this m (Bare (PArray ps)) hs W =
     Inr (W\<lparr>servers := (servers W)(this := (servers W this)
            \<lparr>express_server := express_server (servers W this) @
               [(m, None, map (\<lambda>h. \<lparr>w_this = this, w_class = h, w_instance = None\<rparr>) hs)]\<rparr>)\<rparr>)"
  by (simp add: attach_def wrap_all_lazy)

theorem attach_bare_pattern_gives_null_witness:
  "(case use 0 (Bare (PRegExp ''^/api'')) [] initial_world of
      Inl e \<Rightarrow> False
    | Inr W' \<Rightarrow> express_server (servers W' 0) = [(USE, None, [])])
   \<and> (case get 0 (Bare (PArray [AString ''/a'', ARegExp ''^/b''])) [] initial_world of
      Inl e \<Rightarrow> False
    | Inr W' \<Rightarrow> express_server (servers W' 0) = [(GET, None, [])])
   \<and> (case get 0 (Bare (PString ''/a'')) [] initial_world of
      Inl e \<Rightarrow> False
    | Inr W' \<Rightarrow> express_server (servers W' 0) = [(GET, Some (PString ''/a''), [])])"
  using attach_bare_pattern_gives_null
          [where this = 0 and m = USE and x = "''^/api''" and hs = "[]" and W = initial_world]
        attach_bare_pattern_gives_null
          [where this = 0 and m = GET and ps = "[AString ''/a'', ARegExp ''^/b'']" and hs = "[]"
             and W = initial_world]
  by (simp add: use_def get_def attach_def initial_world_def new_server_def)

section \<open>The adapter of a raw callback\<close>

text \<open>
  C6, as amended. \<^verbatim>\<open>Handler.from(f)\<close> is a class whose instances are adapters of \<open>f\<close>.
  The adapter's \<^verbatim>\<open>handle\<close> invokes \<open>f\<close> with the response and the promise's \<^verbatim>\<open>resolve\<close> as
  the continuation signal: every call \<open>f\<close> makes on the response is made, in order, and
  the wrapper sees the promise as it settles. At every moment (after the call itself and
  any number \<open>n\<close> of later steps of \<open>f\<close>) the promise is fulfilled exactly when \<open>f\<close> has
  invoked the signal, either during the call or later without having thrown during the
  call. The adapter translates no error: the promise is rejected, with the value \<open>f\<close>
  threw, exactly when \<open>f\<close> threw during the call without having invoked the signal before.
  An error that \<open>f\<close> raises asynchronously does not change the promise.
\<close>

theorem adapter_promise_follows_signal:
  "construct (from_callback f) vs = Inr (HandlerInstance (Adapter f))
   \<and> until_settled (handle (Adapter f)) @ during_tick (handle (Adapter f)) =
       res_ops (cb_sync f @ cb_later f)
   \<and> settled (handle (Adapter f)) = completion_of (adapter_promise f)
   \<and> adapter_promise f = fst (cb_run (take (length (cb_later f)) (cb_later f)) (executor f))
   \<and> (fst (cb_run (take n (cb_later f)) (executor f)) = Fulfilled \<longleftrightarrow>
        Signal \<in> set (cb_sync f) \<or>
        (cb_throws f = None \<and> Signal \<in> set (take n (cb_later f))))
   \<and> (fst (cb_run (take n (cb_later f)) (executor f)) = Rejected e \<longleftrightarrow>
        Signal \<notin> set (cb_sync f) \<and> cb_throws f = Some e)
   \<and> adapter_promise (f\<lparr>cb_async_error := x\<rparr>) = adapter_promise f"
proof -
  have "adapter_promise (f\<lparr>cb_async_error := x\<rparr>) = adapter_promise f"
    by (simp add: adapter_promise_def adapter_run_def executor_def)
  moreover have "adapter_promise f = fst (cb_run (take (length (cb_later f)) (cb_later f)) (executor f))"
    by (simp add: adapter_promise_def adapter_run_def)
  ultimately show ?thesis
    using adapter_calls [of f] adapter_settled [of f]
    by (simp del: handle.simps add: from_callback_def promise_after split: option.splits)
qed

theorem adapter_promise_follows_signal_witness:
  "adapter_promise sets_status_then_signals = Fulfilled
   \<and> Signal \<in> set (cb_sync sets_status_then_signals)
   \<and> settled (handle (Adapter sets_status_then_signals)) = Fulfils
   \<and> until_settled (handle (Adapter sets_status_then_signals)) = [Status 201]
   \<and> trace (invoke (lazy_wrapper (from_callback sets_status_then_signals)) 1 new_response 2
        initial_world) = [Resolve ''class { handle(req, res) { ... } }'', Handle 1, Tick, Next 2]"
  using adapter_promise_follows_signal
          [where f = sets_status_then_signals and n = 0 and vs = "[]"]
  by (simp add: sets_status_then_signals_def adapter_promise_def adapter_run_def executor_def
        cb_run_def from_callback_def lazy_wrapper_def run_defs)

text \<open>
  The claim as stated fails for a callback that invokes the signal and then throws (the
  promise is already fulfilled, and the exception is dropped by the promise), and for a
  callback whose error is asynchronous (the promise stays pending, and the wrapper waits
  for ever): in neither case does the error reach the caller of \<^verbatim>\<open>handle\<close>.
\<close>

theorem adapter_loses_errors_counterexample:
  "cb_throws signal_then_throw = Some boom
   \<and> adapter_promise signal_then_throw = Fulfilled
   \<and> adapter_promise signal_then_throw \<noteq> Rejected boom
   \<and> settled (handle (Adapter signal_then_throw)) = Fulfils
   \<and> console (world_after (invoke (lazy_wrapper (from_callback signal_then_throw)) 1
        new_response 2 initial_world)) = []
   \<and> cb_async_error rejects_later = Some boom
   \<and> adapter_promise rejects_later = Pending
   \<and> ending (invoke (lazy_wrapper (from_callback rejects_later)) 1 new_response 2
        initial_world) = Stalled"
  by (simp add: adapter_promise_def adapter_run_def executor_def cb_run_def
        signal_then_throw_def rejects_later_def from_callback_def lazy_wrapper_def run_defs
        initial_world_def)

section \<open>Publishing the transport handle\<close>

text \<open>
  C7, as amended. Take a call \<^verbatim>\<open>listen(port)\<close>. If the transport refuses the port at once
  (\<^verbatim>\<open>express_server.listen\<close> throws, as it does for every port number outside 0 to 65535),
  the returned promise is rejected with that exception within the call, and nothing is
  registered and no transport is created. Otherwise the handle of the transport is
  registered under \<^verbatim>\<open>HTTP_SERVER_TOKEN\<close> in the server's container within the call itself,
  whatever binding the port comes to: when the call returns the token resolves to the
  handle, the transport has reported nothing yet and the returned promise is pending.
  When the transport reports, the promise is fulfilled if the transport is accepting
  connections and rejected with the bind error if binding failed; the handle stays
  registered in either case.
\<close>

theorem listen_publishes_at_once:
  assumes valid: "container (servers W this) < length (containers W)"
  shows "(case listen this port a W of (p, W1) \<Rightarrow>
           p = length (promises W)
         \<and> (case transport_answer port a of
               Refused e \<Rightarrow>
                 promises W1 = promises W @ [Rejected e]
               \<and> containers W1 = containers W
               \<and> transports W1 = transports W
             | Started out \<Rightarrow>
                 resolve_token (containers W1) (container (servers W1 this)) HTTP_SERVER_TOKEN =
                   Some (HttpServer (length (transports W)))
               \<and> t_outcome (transports W1 ! length (transports W)) = out
               \<and> \<not> t_emitted (transports W1 ! length (transports W))
               \<and> promises W1 ! p = Pending
               \<and> promises (emit (length (transports W)) W1) ! p =
                   (case out of Bound \<Rightarrow> Fulfilled | BindError e \<Rightarrow> Rejected e)
               \<and> resolve_token (containers (emit (length (transports W)) W1))
                    (container (servers (emit (length (transports W)) W1) this))
                    HTTP_SERVER_TOKEN =
                   Some (HttpServer (length (transports W)))))
       \<and> (n < 0 \<or> 65535 < n \<longrightarrow> transport_answer (PortNumber n) a = Refused bad_port_error)
       \<and> transport_answer PortNonInteger a = Refused bad_port_error"
proof -
  have ports: "(n < 0 \<or> 65535 < n \<longrightarrow> transport_answer (PortNumber n) a = Refused bad_port_error)
      \<and> transport_answer PortNonInteger a = Refused bad_port_error"
    by (auto simp: transport_answer_def)
  show ?thesis
  proof (cases "transport_answer port a")
    case (Refused e)
    then show ?thesis
      using ports by (simp add: listen_def Let_def)
  next
    case (Started out)
    then show ?thesis
      using ports resolve_token_registered [OF valid]
      by (cases out) (simp_all add: listen_def Let_def emit_def settle_def nth_append)
  qed
qed

theorem listen_publishes_at_once_witness:
  "container (servers initial_world 0) < length (containers initial_world)
   \<and> fst (listen 0 (PortNumber 8080) (Started Bound) initial_world) = 0
   \<and> promises (snd (listen 0 (PortNumber 8080) (Started Bound) initial_world)) = [Pending]
   \<and> resolve_token (containers (snd (listen 0 (PortNumber 8080) (Started Bound) initial_world)))
        (container (servers (snd (listen 0 (PortNumber 8080) (Started Bound) initial_world)) 0))
        HTTP_SERVER_TOKEN = Some (HttpServer 0)
   \<and> promises (emit 0 (snd (listen 0 (PortNumber 8080) (Started Bound) initial_world))) =
        [Fulfilled]
   \<and> promises (snd (listen 0 (PortNumber 70000) (Started Bound) initial_world)) =
        [Rejected bad_port_error]
   \<and> transports (snd (listen 0 (PortNumber 70000) (Started Bound) initial_world)) = []
   \<and> resolve_token (containers (snd (listen 0 (PortNumber 70000) (Started Bound) initial_world)))
        (container (servers (snd (listen 0 (PortNumber 70000) (Started Bound) initial_world)) 0))
        HTTP_SERVER_TOKEN = None"
proof -
  have v: "container (servers initial_world 0) < length (containers initial_world)"
    by (simp add: world_defs)
  show ?thesis
    using listen_publishes_at_once
            [OF v, where port = "PortNumber 8080" and a = "Started Bound" and n = 70000]
          listen_publishes_at_once
            [OF v, where port = "PortNumber 70000" and a = "Started Bound" and n = 70000] v
    by (simp add: listen_def transport_answer_def Let_def emit_def settle_def world_defs
          HTTP_SERVER_TOKEN_def)
qed

text \<open>
  The claim as stated fails when binding fails: after \<^verbatim>\<open>listen(8080)\<close> on a new server
  whose port cannot be bound, the token resolves to the handle of a transport that is
  not bound and never will be, before and after the returned promise is rejected.
\<close>

theorem listen_publishes_unbound_counterexample:
  "t_outcome (transports
      (snd (listen 0 (PortNumber 8080) (Started (BindError boom)) initial_world)) ! 0) =
     BindError boom
   \<and> resolve_token
        (containers (snd (listen 0 (PortNumber 8080) (Started (BindError boom)) initial_world)))
        (container (servers
           (snd (listen 0 (PortNumber 8080) (Started (BindError boom)) initial_world)) 0))
        HTTP_SERVER_TOKEN = Some (HttpServer 0)
   \<and> promises (emit 0
        (snd (listen 0 (PortNumber 8080) (Started (BindError boom)) initial_world))) =
        [Rejected boom]
   \<and> resolve_token
        (containers (emit 0
           (snd (listen 0 (PortNumber 8080) (Started (BindError boom)) initial_world))))
        (container (servers (emit 0
           (snd (listen 0 (PortNumber 8080) (Started (BindError boom)) initial_world))) 0))
        HTTP_SERVER_TOKEN = Some (HttpServer 0)"
  by (simp add: listen_def transport_answer_def Let_def emit_def settle_def world_defs
        HTTP_SERVER_TOKEN_def)

end
